theory Spec2Isabelle
  imports Main
begin

section \<open>Data model of src/http-js.ts\<close>

text \<open>
  The option objects handed to \<open>get\<close> and \<open>json\<close> are JavaScript objects: the dispatcher
  stores a reference to them, and so does the caller. They therefore live in a store
  (\<open>heap\<close>), and the queue and the current options hold references into it.
  A completion handler is an opaque closure; it is represented by an identifier, and each
  invocation is recorded in a trace together with the arguments it received (its third
  argument, the receiver of the event, is left out). The calls made on the single
  \<open>XMLHttpRequest\<close> object are recorded in the same trace. \<open>console.log\<close> is not modelled.
  A callback is taken to return normally and not to call the dispatcher or to write into
  an options object. What the platform does on \<open>open\<close>, \<open>send\<close> and \<open>abort\<close> reaches the
  dispatcher as state-change notifications, which are inputs of a run.
\<close>

datatype http_method = GET | POST

text \<open>The field \<open>method\<close> of the options is called \<open>req_method\<close> here.\<close>

record HttpJSRequestOptions =
  req_method :: http_method
  url :: string
  params :: "string option"
  isJson :: "bool option"

type_synonym ref = nat

type_synonym HttpRequestCompletionHandler = nat

record HttpJSRequest =
  req_options :: ref
  req_handler :: HttpRequestCompletionHandler

datatype json_value =
    JNull
  | JBool bool
  | JNumber int
  | JString string
  | JArray "json_value list"
  | JObject "(string \<times> json_value) list"

text \<open>The value of the local variable \<open>result\<close> of the completion handler.\<close>

datatype response_data = Parsed json_value | Raw string

datatype effect =
    XhrOpen http_method string bool
  | XhrSetRequestHeader string string
  | XhrSend
  | XhrAbort
  | Invoke HttpRequestCompletionHandler response_data nat

datatype exn = SyntaxError | TypeError

subsection \<open>The platform\<close>

text \<open>
  What the code takes from its platform is a parameter of the model:
  \<^item> \<open>JSON.parse\<close>, which throws \<open>SyntaxError\<close> where \<open>JSON_parse\<close> yields \<open>None\<close>;
  \<^item> the url parser of \<open>XMLHttpRequest.open\<close>, which throws \<open>SyntaxError\<close> on a url that
    does not parse;
  \<^item> the prototype chain of the registry object. The registry is created as \<open>{}\<close>, so a
    lookup that finds no own property goes on to the prototype. \<open>inherited p k\<close> is what
    the chain holds under the key \<open>k\<close> other than \<open>__proto__\<close> when the prototype of the
    registry is \<open>p\<close> (\<open>None\<close> for the initial prototype, \<open>Some h\<close> once the prototype has
    been replaced by the callback \<open>h\<close>): nothing, a getter that throws, or a value, given
    by whether calling it with the data and the status code returns normally;
    \<open>readonly p k\<close> holds when the chain forbids the assignment of a new own property
    \<open>k\<close>, which throws \<open>TypeError\<close> in the strict code of a class.
\<close>

datatype inherited_property = Getter_throws | Value_of "response_data \<Rightarrow> nat \<Rightarrow> bool"

record platform =
  JSON_parse :: "string \<Rightarrow> json_value option"
  url_parses :: "string \<Rightarrow> bool"
  inherited :: "HttpRequestCompletionHandler option \<Rightarrow> string \<Rightarrow> inherited_property option"
  readonly :: "HttpRequestCompletionHandler option \<Rightarrow> string \<Rightarrow> bool"

subsection \<open>The registry object\<close>

text \<open>
  \<open>completionHandlers\<close> is a plain object: its own properties and its prototype. The key
  \<open>__proto__\<close> is the accessor of the prototype: reading it yields the prototype, which is
  an object that cannot be called as long as it is the initial one, and assigning a
  callback to it replaces the prototype and creates no own property.
\<close>

record registry =
  own :: "string \<rightharpoonup> HttpRequestCompletionHandler"
  proto :: "HttpRequestCompletionHandler option"

datatype lookup =
    Undefined_value
  | Lookup_throws
  | Callback HttpRequestCompletionHandler
  | Inherited "response_data \<Rightarrow> nat \<Rightarrow> bool"

text \<open>\<open>completionHandlers[k]\<close>\<close>

definition registry_get :: "platform \<Rightarrow> registry \<Rightarrow> string \<Rightarrow> lookup" where
  "registry_get pf reg k =
     (if k = ''__proto__''
      then (case proto reg of None \<Rightarrow> Inherited (\<lambda>d c. False) | Some h \<Rightarrow> Callback h)
      else
        (case own reg k of
           Some h \<Rightarrow> Callback h
         | None \<Rightarrow>
             (case inherited pf (proto reg) k of
                None \<Rightarrow> Undefined_value
              | Some Getter_throws \<Rightarrow> Lookup_throws
              | Some (Value_of f) \<Rightarrow> Inherited f)))"

text \<open>\<open>completionHandlers[k] = h\<close>; \<open>None\<close> where the assignment throws \<open>TypeError\<close>.\<close>

definition registry_set ::
  "platform \<Rightarrow> registry \<Rightarrow> string \<Rightarrow> HttpRequestCompletionHandler \<Rightarrow> registry option" where
  "registry_set pf reg k h =
     (if k = ''__proto__'' then Some (reg\<lparr>proto := Some h\<rparr>)
      else if own reg k \<noteq> None then Some (reg\<lparr>own := (own reg)(k \<mapsto> h)\<rparr>)
      else if readonly pf (proto reg) k then None
      else Some (reg\<lparr>own := (own reg)(k \<mapsto> h)\<rparr>))"

text \<open>\<open>delete completionHandlers[k]\<close> removes an own property and nothing else.\<close>

definition registry_delete :: "registry \<Rightarrow> string \<Rightarrow> registry" where
  "registry_delete reg k = reg\<lparr>own := (own reg)(k := None)\<rparr>"

subsection \<open>The dispatcher object\<close>

text \<open>
  The fields of the transport that the dispatcher reads. \<open>readyState\<close> is optional because
  the source tests it against \<open>undefined\<close>.
\<close>

record XMLHttpRequest =
  readyState :: "nat option"
  status :: nat
  responseText :: string

record HttpJS =
  completionHandlers :: registry
  xmlHtpRequest :: XMLHttpRequest
  options :: "ref option"
  queue :: "HttpJSRequest list"
  isRunning :: bool

text \<open>The dispatcher \<open>window.http\<close>, the store of option objects and the trace of effects.\<close>

record world = HttpJS +
  heap :: "ref \<Rightarrow> HttpJSRequestOptions"
  trace :: "effect list"

text \<open>
  A call returns or throws; the state it has reached by then stays as it is, since nothing
  in the code catches an exception.
\<close>

datatype outcome = Returns world | Throws exn world

fun state_of :: "outcome \<Rightarrow> world" where
  "state_of (Returns s) = s"
| "state_of (Throws ex s) = s"

fun thrown :: "outcome \<Rightarrow> exn option" where
  "thrown (Returns s) = None"
| "thrown (Throws ex s) = Some ex"

text \<open>The constructor: a fresh transport, an empty registry and an empty queue.\<close>

definition new_HttpJS :: "(ref \<Rightarrow> HttpJSRequestOptions) \<Rightarrow> world" where
  "new_HttpJS hp =
     \<lparr>completionHandlers = \<lparr>own = Map.empty, proto = None\<rparr>,
      xmlHtpRequest = \<lparr>readyState = Some 0, status = 0, responseText = []\<rparr>,
      options = None,
      queue = [],
      isRunning = False,
      heap = hp,
      trace = []\<rparr>"

section \<open>The transport calls\<close>

text \<open>\<open>open\<close> is recorded and then throws if the url does not parse.\<close>

definition xhr_open :: "platform \<Rightarrow> http_method \<Rightarrow> string \<Rightarrow> bool \<Rightarrow> world \<Rightarrow> outcome" where
  "xhr_open pf m u a s =
     (let s1 = s\<lparr>trace := trace s @ [XhrOpen m u a]\<rparr>
      in if url_parses pf u then Returns s1 else Throws SyntaxError s1)"

definition setRequestHeader :: "string \<Rightarrow> string \<Rightarrow> world \<Rightarrow> world" where
  "setRequestHeader k v s = s\<lparr>trace := trace s @ [XhrSetRequestHeader k v]\<rparr>"

definition xhr_send :: "world \<Rightarrow> world" where
  "xhr_send s = s\<lparr>trace := trace s @ [XhrSend]\<rparr>"

definition xhr_abort :: "world \<Rightarrow> world" where
  "xhr_abort s = s\<lparr>trace := trace s @ [XhrAbort]\<rparr>"

section \<open>The dispatcher\<close>

text \<open>\<open>setJsonHeaders\<close>, lines 261-265.\<close>

definition setJsonHeaders :: "world \<Rightarrow> world" where
  "setJsonHeaders s =
     (case options s of
        None \<Rightarrow> s
      | Some r \<Rightarrow>
          (case isJson (heap s r) of
             None \<Rightarrow> s
           | Some b \<Rightarrow>
               if b = False then s
               else setRequestHeader ''Accept'' ''application/json'' s))"

text \<open>
  The callback given to \<open>Array.filter\<close> on line 176 is an arrow function with a block
  body: it evaluates the comparison as an expression statement and returns nothing, so
  its value is \<open>undefined\<close>. \<open>filter\<close> keeps the elements whose callback value is truthy.
\<close>

datatype js_value = Undefined | Boolean bool

fun truthy :: "js_value \<Rightarrow> bool" where
  "truthy Undefined = False"
| "truthy (Boolean b) = b"

definition queue_filter_callback ::
  "(ref \<Rightarrow> HttpJSRequestOptions) \<Rightarrow> HttpJSRequest \<Rightarrow> HttpJSRequest \<Rightarrow> js_value" where
  "queue_filter_callback hp e h =
     (let discarded = (url (hp (req_options h)) \<noteq> url (hp (req_options e)))
      in Undefined)"

text \<open>
  \<open>execute\<close>, lines 155-178. \<open>queue.shift()\<close> is the case distinction on the queue. The
  assignment to the registry on line 170 and \<open>open\<close> on line 172 can throw; the flag, the
  current options and the shortened queue are written before.
\<close>

definition execute :: "platform \<Rightarrow> world \<Rightarrow> outcome" where
  "execute pf s =
     (if isRunning s then Returns s
      else
        (case queue s of
           [] \<Rightarrow> Returns (s\<lparr>isRunning := False\<rparr>)
         | request # rest \<Rightarrow>
             (let e = request;
                  s1 = s\<lparr>queue := rest\<rparr>;
                  s2 = s1\<lparr>isRunning := True\<rparr>;
                  s3 = s2\<lparr>options := Some (req_options request)\<rparr>;
                  opts = heap s3 (req_options request)
              in case registry_set pf (completionHandlers s3) (url opts) (req_handler request) of
                   None \<Rightarrow> Throws TypeError s3
                 | Some reg \<Rightarrow>
                     (case xhr_open pf (req_method opts) (url opts) True
                             (s3\<lparr>completionHandlers := reg\<rparr>) of
                        Throws ex s5 \<Rightarrow> Throws ex s5
                      | Returns s5 \<Rightarrow>
                          (let s6 = setJsonHeaders s5;
                               s7 = xhr_send s6
                           in Returns
                                (s7\<lparr>queue :=
                                      filter (\<lambda>h. truthy (queue_filter_callback (heap s7) e h))
                                        (queue s7)\<rparr>))))))"

text \<open>\<open>get\<close>, lines 127-138, and \<open>json\<close>, lines 113-117: both write into the caller's object.\<close>

definition get :: "platform \<Rightarrow> ref \<Rightarrow> HttpRequestCompletionHandler \<Rightarrow> world \<Rightarrow> outcome" where
  "get pf r completionHandler s =
     (let s1 = s\<lparr>heap := (heap s)(r := (heap s r)\<lparr>req_method := GET\<rparr>)\<rparr>;
          s2 = s1\<lparr>heap := (heap s1)(r := (heap s1 r)\<lparr>isJson := isJson (heap s1 r)\<rparr>)\<rparr>;
          s3 = s2\<lparr>queue := queue s2 @ [\<lparr>req_options = r, req_handler = completionHandler\<rparr>]\<rparr>
      in execute pf s3)"

definition json :: "platform \<Rightarrow> ref \<Rightarrow> HttpRequestCompletionHandler \<Rightarrow> world \<Rightarrow> outcome" where
  "json pf r completionHandler s =
     (let s1 = s\<lparr>heap := (heap s)(r := (heap s r)\<lparr>req_method := GET\<rparr>)\<rparr>;
          s2 = s1\<lparr>heap := (heap s1)(r := (heap s1 r)\<lparr>isJson := Some True\<rparr>)\<rparr>
      in get pf r completionHandler s2)"

text \<open>\<open>executeNextTask\<close>, lines 145-148.\<close>

definition executeNextTask :: "platform \<Rightarrow> world \<Rightarrow> outcome" where
  "executeNextTask pf s = execute pf (s\<lparr>isRunning := False\<rparr>)"

text \<open>\<open>isStateReady\<close>, lines 220-224.\<close>

definition isStateReady :: "world \<Rightarrow> bool" where
  "isStateReady s =
     (let state = readyState (xmlHtpRequest s)
      in \<not> (state \<noteq> None \<and> readyState (xmlHtpRequest s) \<noteq> Some 4))"

text \<open>The \<open>switch\<close> of lines 196-205.\<close>

definition decode_response ::
  "platform \<Rightarrow> HttpJSRequestOptions \<Rightarrow> XMLHttpRequest \<Rightarrow> exn + response_data" where
  "decode_response pf opts xhr =
     (let isJson = (case isJson opts of None \<Rightarrow> False | Some b \<Rightarrow> b)
      in if isJson = True \<and> status xhr \<noteq> 0
         then (case JSON_parse pf (responseText xhr) of
                 None \<Rightarrow> Inl SyntaxError
               | Some v \<Rightarrow> Inr (Parsed v))
         else Inr (Raw (responseText xhr)))"

text \<open>
  The call \<open>handler(result, status, this)\<close> of line 207 on what the lookup of line 190 has
  found: a callback is invoked, an inherited value is called and either returns, leaving
  no trace, or throws \<open>TypeError\<close>, which is \<open>None\<close>.
\<close>

fun call_handler :: "lookup \<Rightarrow> response_data \<Rightarrow> nat \<Rightarrow> world \<Rightarrow> world option" where
  "call_handler (Callback h) d c s = Some (s\<lparr>trace := trace s @ [Invoke h d c]\<rparr>)"
| "call_handler (Inherited f) d c s = (if f d c then Some s else None)"
| "call_handler Undefined_value d c s = None"
| "call_handler Lookup_throws d c s = None"

text \<open>
  \<open>onReadyStateChangeHandler\<close>, lines 185-210. The lookup, \<open>JSON.parse\<close> and the call of
  the handler can each throw, which leaves the handler before the registry entry is
  deleted and the next task started; \<open>executeNextTask\<close> can throw at the end.
\<close>

definition onReadyStateChangeHandler :: "platform \<Rightarrow> world \<Rightarrow> outcome" where
  "onReadyStateChangeHandler pf s =
     (if \<not> isStateReady s \<or> options s = None then Returns s
      else
        (case options s of
           None \<Rightarrow> Returns s
         | Some r \<Rightarrow>
             (case registry_get pf (completionHandlers s) (url (heap s r)) of
                Lookup_throws \<Rightarrow> Throws TypeError s
              | Undefined_value \<Rightarrow> Returns s
              | handler \<Rightarrow>
                  (case decode_response pf (heap s r) (xmlHtpRequest s) of
                     Inl ex \<Rightarrow> Throws ex s
                   | Inr result \<Rightarrow>
                       (case call_handler handler result (status (xmlHtpRequest s)) s of
                          None \<Rightarrow> Throws TypeError s
                        | Some s1 \<Rightarrow>
                            (let s2 = s1\<lparr>completionHandlers :=
                                            registry_delete (completionHandlers s1)
                                              (url (heap s1 r))\<rparr>
                             in executeNextTask pf s2))))))"

text \<open>\<open>close\<close>, \<open>stop\<close> and \<open>start\<close>, lines 232-254.\<close>

definition close :: "world \<Rightarrow> world" where
  "close s = xhr_abort s"

definition stop :: "world \<Rightarrow> world" where
  "stop s = xhr_abort (s\<lparr>isRunning := True\<rparr>)"

definition start :: "platform \<Rightarrow> world \<Rightarrow> outcome" where
  "start pf s = executeNextTask pf s"

section \<open>Runs\<close>

text \<open>
  What happens to the dispatcher, one event at a time: a call of its public interface, or
  a state-change notification of the transport, which carries the transport's fields at
  that moment. An exception ends that event only, with the state reached by then.
\<close>

datatype input =
    Get ref HttpRequestCompletionHandler
  | Json ref HttpRequestCompletionHandler
  | ReadyStateChange "nat option" nat string
  | Close
  | Stop
  | Start

fun step :: "platform \<Rightarrow> world \<Rightarrow> input \<Rightarrow> world" where
  "step pf s (Get r h) = state_of (get pf r h s)"
| "step pf s (Json r h) = state_of (json pf r h s)"
| "step pf s (ReadyStateChange rs st body) =
     state_of (onReadyStateChangeHandler pf
       (s\<lparr>xmlHtpRequest := \<lparr>readyState = rs, status = st, responseText = body\<rparr>\<rparr>))"
| "step pf s Close = close s"
| "step pf s Stop = stop s"
| "step pf s Start = state_of (start pf s)"

definition run :: "platform \<Rightarrow> world \<Rightarrow> input list \<Rightarrow> world" where
  "run pf s ins = foldl (step pf) s ins"

section \<open>Observations\<close>

text \<open>The callbacks invoked so far, in order, with the data and status code each received.\<close>

fun callbacks :: "effect list \<Rightarrow> (HttpRequestCompletionHandler \<times> response_data \<times> nat) list" where
  "callbacks [] = []"
| "callbacks (Invoke h d c # es) = (h, d, c) # callbacks es"
| "callbacks (e # es) = callbacks es"

definition invoked :: "world \<Rightarrow> (HttpRequestCompletionHandler \<times> response_data \<times> nat) list" where
  "invoked s = callbacks (trace s)"

text \<open>The callbacks that one run of the completion handler invokes.\<close>

definition fired ::
  "platform \<Rightarrow> world \<Rightarrow> (HttpRequestCompletionHandler \<times> response_data \<times> nat) list" where
  "fired pf s =
     drop (length (invoked s)) (invoked (state_of (onReadyStateChangeHandler pf s)))"

text \<open>
  The sends that are outstanding: those issued since the last completion was handled by
  invoking a callback. A transport operation is in flight when there is one.
\<close>

fun count_pending :: "nat \<Rightarrow> effect \<Rightarrow> nat" where
  "count_pending n XhrSend = Suc n"
| "count_pending n (Invoke h d c) = 0"
| "count_pending n e = n"

definition pending :: "effect list \<Rightarrow> nat" where
  "pending es = foldl count_pending 0 es"

definition in_flight :: "world \<Rightarrow> bool" where
  "in_flight s = (0 < pending (trace s))"

text \<open>
  The calls that \<open>execute\<close> makes on the transport when it pops a task with the options
  \<open>opts\<close> and the callback \<open>h\<close> while the registry is \<open>reg\<close>, and whether they end in a send.
\<close>

definition sends_task ::
  "platform \<Rightarrow> registry \<Rightarrow> HttpJSRequestOptions \<Rightarrow> HttpRequestCompletionHandler \<Rightarrow> bool" where
  "sends_task pf reg opts h = (registry_set pf reg (url opts) h \<noteq> None \<and> url_parses pf (url opts))"

definition dispatch_calls ::
  "platform \<Rightarrow> registry \<Rightarrow> HttpJSRequestOptions \<Rightarrow> HttpRequestCompletionHandler \<Rightarrow> effect list" where
  "dispatch_calls pf reg opts h =
     (if registry_set pf reg (url opts) h = None then []
      else
        [XhrOpen (req_method opts) (url opts) True] @
        (if url_parses pf (url opts)
         then (if isJson opts = Some True
               then [XhrSetRequestHeader ''Accept'' ''application/json''] else []) @
              [XhrSend]
         else []))"

fun opens_with_GET :: "effect \<Rightarrow> bool" where
  "opens_with_GET (XhrOpen m u a) = (m = GET)"
| "opens_with_GET e = True"






definition queued_GET :: "world \<Rightarrow> bool" where
  "queued_GET s =
     (list_all (\<lambda>t. req_method (heap s (req_options t)) = GET) (queue s) \<and>
      list_all opens_with_GET (trace s))"

section \<open>Example data\<close>

text \<open>
  Six option objects: three with the pairwise distinct urls /a, /b and /c, one of them
  carrying the method POST, one with a url that does not parse, one whose url is the name
  of a property that every object inherits, and the others with the url /a again.
\<close>

definition example_heap :: "ref \<Rightarrow> HttpJSRequestOptions" where
  "example_heap r =
     (if r = 0 then \<lparr>req_method = POST, url = ''/a'', params = None, isJson = None\<rparr>
      else if r = 1 then \<lparr>req_method = GET, url = ''/b'', params = None, isJson = Some False\<rparr>
      else if r = 2 then \<lparr>req_method = GET, url = ''/c'', params = None, isJson = None\<rparr>
      else if r = 4 then \<lparr>req_method = GET, url = ''http://'', params = None, isJson = None\<rparr>
      else if r = 5 then \<lparr>req_method = GET, url = ''constructor'', params = None, isJson = None\<rparr>
      else \<lparr>req_method = GET, url = ''/a'', params = None, isJson = None\<rparr>)"

text \<open>
  An example platform, which agrees with a browser on the texts, urls and keys used below.
  Its \<open>JSON.parse\<close> parses \<open>[1,2,3]\<close> and rejects the other texts, none of which is JSON.
  Its url parser rejects \<open>http://\<close>, which has no host. The initial prototype of the
  registry is \<open>Object.prototype\<close>: \<open>constructor\<close> and \<open>toString\<close> return when called as the
  handler is, \<open>isPrototypeOf\<close> returns unless the data is an object, and the other
  functions throw because they are called without a receiver. With a callback as the
  prototype, the properties of a function come first, of which \<open>length\<close> and \<open>name\<close> are
  read-only; the callbacks are arrow functions, which have no \<open>prototype\<close> property.
\<close>

definition example_parse :: "string \<Rightarrow> json_value option" where
  "example_parse t =
     (if t = ''[1,2,3]'' then Some (JArray [JNumber 1, JNumber 2, JNumber 3]) else None)"

fun is_primitive :: "response_data \<Rightarrow> bool" where
  "is_primitive (Raw t) = True"
| "is_primitive (Parsed (JArray vs)) = False"
| "is_primitive (Parsed (JObject kvs)) = False"
| "is_primitive (Parsed v) = True"

definition example_inherited ::
  "HttpRequestCompletionHandler option \<Rightarrow> string \<Rightarrow> inherited_property option" where
  "example_inherited p k =
     (if p = None \<and> (k = ''constructor'' \<or> k = ''toString'') then Some (Value_of (\<lambda>d c. True))
      else if k = ''isPrototypeOf'' then Some (Value_of (\<lambda>d c. is_primitive d))
      else if k \<in> set [''valueOf'', ''hasOwnProperty'', ''propertyIsEnumerable'',
                        ''toLocaleString'', ''__defineGetter__'', ''__defineSetter__'',
                        ''__lookupGetter__'', ''__lookupSetter__'']
      then Some (Value_of (\<lambda>d c. False))
      else if p \<noteq> None \<and> (k = ''arguments'' \<or> k = ''caller'') then Some Getter_throws
      else if p \<noteq> None \<and>
              k \<in> set [''length'', ''name'', ''apply'', ''bind'', ''call'', ''constructor'',
                         ''toString'']
      then Some (Value_of (\<lambda>d c. False))
      else None)"

definition example_platform :: platform where
  "example_platform =
     \<lparr>JSON_parse = example_parse,
      url_parses = (\<lambda>u. u \<noteq> ''http://''),
      inherited = example_inherited,
      readonly = (\<lambda>p k. p \<noteq> None \<and> (k = ''length'' \<or> k = ''name''))\<rparr>"

text \<open>Three requests with distinct urls enqueued one after the other, then three completions.\<close>

definition three_requests :: "input list" where
  "three_requests =
     [Get 0 10, Get 1 11, Get 2 12,
      ReadyStateChange (Some 4) 200 ''x'',
      ReadyStateChange (Some 4) 200 ''y'',
      ReadyStateChange (Some 4) 200 ''z'']"

text \<open>
  The state in which \<open>start\<close> calls \<open>execute\<close> after \<open>stop\<close> and two requests with the
  different urls /b and /c: the running flag is reset and both tasks are queued.
\<close>

definition two_queued :: world where
  "two_queued =
     (run example_platform (new_HttpJS example_heap) [Stop, Get 1 11, Get 2 12])
       \<lparr>isRunning := False\<rparr>"

definition stopped_then_enqueued :: "input list" where
  "stopped_then_enqueued = [Stop, Get 0 10, Get 1 11]"

definition resumed :: "input list" where
  "resumed =
     stopped_then_enqueued @
     [Start, ReadyStateChange (Some 4) 200 ''x'', ReadyStateChange (Some 4) 200 ''y'']"

text \<open>The same, with a first request made through \<open>json\<close>.\<close>

definition stopped_with_json :: world where
  "stopped_with_json =
     (run example_platform (new_HttpJS example_heap) [Stop, Json 0 10, Get 1 11])
       \<lparr>isRunning := False\<rparr>"

text \<open>
  A \<open>json\<close> request in flight whose transport has completed: with a body that is JSON,
  with a body that is not, and with an undefined ready state, status 404 and an HTML body.
\<close>

definition good_json_response :: world where
  "good_json_response =
     (state_of (json example_platform 0 10 (new_HttpJS example_heap)))
       \<lparr>xmlHtpRequest := \<lparr>readyState = Some 4, status = 200, responseText = ''[1,2,3]''\<rparr>\<rparr>"

definition bad_json_response :: world where
  "bad_json_response =
     (state_of (json example_platform 0 10 (new_HttpJS example_heap)))
       \<lparr>xmlHtpRequest := \<lparr>readyState = Some 4, status = 200, responseText = ''not json''\<rparr>\<rparr>"

definition not_found_response :: world where
  "not_found_response =
     (state_of (json example_platform 2 12 (new_HttpJS example_heap)))
       \<lparr>xmlHtpRequest := \<lparr>readyState = None, status = 404, responseText = ''<html>''\<rparr>\<rparr>"

text \<open>
  A request for the url \<open>constructor\<close> has completed, so that its registry entry is
  deleted; then the dispatcher was stopped and a request for /b enqueued. The transport
  still shows the terminal ready state.
\<close>

definition stale_constructor :: world where
  "stale_constructor =
     run example_platform (new_HttpJS example_heap)
       [Get 5 15, ReadyStateChange (Some 4) 200 ''x'', Stop, Get 1 11]"



text \<open>
  The first request for /a in flight and completed with the body \<open>[1,2,3]\<close>, while two
  more requests are queued behind it: one for /b and a second one for /a.
\<close>

definition crowded_queue :: "input list" where
  "crowded_queue =
     [Get 0 10, Get 1 11, Get 3 13,
      ReadyStateChange (Some 4) 200 ''x'',
      ReadyStateChange (Some 4) 200 ''y'',
      ReadyStateChange (Some 4) 200 ''z'']"


section \<open>Basic facts about the scheduling step\<close>

lemmas dispatcher_defs =
  run_def get_def json_def execute_def Let_def xhr_open_def xhr_send_def xhr_abort_def
  setJsonHeaders_def setRequestHeader_def queue_filter_callback_def new_HttpJS_def
  onReadyStateChangeHandler_def isStateReady_def decode_response_def executeNextTask_def
  invoked_def stop_def start_def close_def fired_def registry_get_def registry_set_def
  registry_delete_def example_platform_def example_inherited_def example_parse_def
  example_heap_def pending_def in_flight_def

lemma execute_running: "isRunning s \<Longrightarrow> execute pf s = Returns s"
  by (simp add: execute_def)

lemma execute_idle: "\<not> isRunning s \<Longrightarrow> queue s = [] \<Longrightarrow> execute pf s = Returns s"
  by (simp add: execute_def)

lemma execute_set_throws:
  "\<not> isRunning s \<Longrightarrow> queue s = t # q \<Longrightarrow>
   registry_set pf (completionHandlers s) (url (heap s (req_options t))) (req_handler t) = None \<Longrightarrow>
   execute pf s =
     Throws TypeError (s\<lparr>options := Some (req_options t), queue := q, isRunning := True\<rparr>)"
  by (simp add: execute_def Let_def)

lemma execute_open_throws:
  "\<not> isRunning s \<Longrightarrow> queue s = t # q \<Longrightarrow>
   registry_set pf (completionHandlers s) (url (heap s (req_options t))) (req_handler t)
     = Some reg \<Longrightarrow>
   \<not> url_parses pf (url (heap s (req_options t))) \<Longrightarrow>
   execute pf s =
     Throws SyntaxError
       (s\<lparr>completionHandlers := reg, options := Some (req_options t), queue := q,
          isRunning := True,
          trace := trace s @
            [XhrOpen (req_method (heap s (req_options t))) (url (heap s (req_options t))) True]\<rparr>)"
  by (simp add: execute_def Let_def xhr_open_def)

lemma execute_dispatch:
  "\<not> isRunning s \<Longrightarrow> queue s = t # q \<Longrightarrow>
   registry_set pf (completionHandlers s) (url (heap s (req_options t))) (req_handler t)
     = Some reg \<Longrightarrow>
   url_parses pf (url (heap s (req_options t))) \<Longrightarrow>
   execute pf s =
     Returns
       (s\<lparr>completionHandlers := reg, options := Some (req_options t), queue := [],
          isRunning := True,
          trace := trace s @
            [XhrOpen (req_method (heap s (req_options t))) (url (heap s (req_options t))) True] @
            (if isJson (heap s (req_options t)) = Some True
             then [XhrSetRequestHeader ''Accept'' ''application/json''] else []) @
            [XhrSend]\<rparr>)"
  by (cases "isJson (heap s (req_options t))")
     (auto simp: execute_def Let_def xhr_open_def xhr_send_def setJsonHeaders_def
       setRequestHeader_def queue_filter_callback_def)

text \<open>The three cases in one: what the state is after a task has been popped.\<close>

lemma execute_pop:
  assumes "\<not> isRunning s" and "queue s = t # q"
  shows "state_of (execute pf s) =
     s\<lparr>completionHandlers :=
          (case registry_set pf (completionHandlers s) (url (heap s (req_options t)))
                  (req_handler t) of
             None \<Rightarrow> completionHandlers s | Some reg \<Rightarrow> reg),
       options := Some (req_options t),
       queue := (if sends_task pf (completionHandlers s) (heap s (req_options t)) (req_handler t)
                 then [] else q),
       isRunning := True,
       trace := trace s @
         dispatch_calls pf (completionHandlers s) (heap s (req_options t)) (req_handler t)\<rparr>"
proof (cases "registry_set pf (completionHandlers s) (url (heap s (req_options t))) (req_handler t)")
  case None
  then show ?thesis
    using assms by (simp add: execute_set_throws sends_task_def dispatch_calls_def)
next
  case (Some reg)
  then show ?thesis
    using assms
    by (cases "url_parses pf (url (heap s (req_options t)))")
       (simp_all add: execute_open_throws execute_dispatch sends_task_def dispatch_calls_def)
qed

lemma heap_execute: "heap (state_of (execute pf s)) = heap s"
  by (cases "isRunning s"; cases "queue s")
     (simp_all add: execute_running execute_idle execute_pop)

lemma callbacks_append: "callbacks (xs @ ys) = callbacks xs @ callbacks ys"
  by (induction xs rule: callbacks.induct) simp_all

lemma callbacks_dispatch_calls: "callbacks (dispatch_calls pf reg opts h) = []"
  by (simp add: dispatch_calls_def)



lemma invoked_execute: "invoked (state_of (execute pf s)) = invoked s"
  by (cases "isRunning s"; cases "queue s")
     (simp_all add: execute_running execute_idle execute_pop invoked_def
       callbacks_append callbacks_dispatch_calls)




section \<open>Basic facts about the completion handler\<close>

lemma handler_noop:
  "\<not> isStateReady s \<or> options s = None \<or>
   (\<exists>r. options s = Some r \<and>
        registry_get pf (completionHandlers s) (url (heap s r)) = Undefined_value) \<Longrightarrow>
   onReadyStateChangeHandler pf s = Returns s"
  by (auto simp: onReadyStateChangeHandler_def)

lemma handler_lookup_throws:
  "isStateReady s \<Longrightarrow> options s = Some r \<Longrightarrow>
   registry_get pf (completionHandlers s) (url (heap s r)) = Lookup_throws \<Longrightarrow>
   onReadyStateChangeHandler pf s = Throws TypeError s"
  by (simp add: onReadyStateChangeHandler_def)

lemma handler_callback:
  "isStateReady s \<Longrightarrow> options s = Some r \<Longrightarrow>
   registry_get pf (completionHandlers s) (url (heap s r)) = Callback h \<Longrightarrow>
   onReadyStateChangeHandler pf s =
     (case decode_response pf (heap s r) (xmlHtpRequest s) of
        Inl ex \<Rightarrow> Throws ex s
      | Inr d \<Rightarrow>
          executeNextTask pf
            (s\<lparr>trace := trace s @ [Invoke h d (status (xmlHtpRequest s))],
               completionHandlers :=
                 registry_delete (completionHandlers s) (url (heap s r))\<rparr>))"
  by (simp add: onReadyStateChangeHandler_def Let_def split: sum.splits)

lemma handler_inherited:
  "isStateReady s \<Longrightarrow> options s = Some r \<Longrightarrow>
   registry_get pf (completionHandlers s) (url (heap s r)) = Inherited f \<Longrightarrow>
   onReadyStateChangeHandler pf s =
     (case decode_response pf (heap s r) (xmlHtpRequest s) of
        Inl ex \<Rightarrow> Throws ex s
      | Inr d \<Rightarrow>
          if f d (status (xmlHtpRequest s))
          then executeNextTask pf
                 (s\<lparr>completionHandlers :=
                      registry_delete (completionHandlers s) (url (heap s r))\<rparr>)
          else Throws TypeError s)"
  by (simp add: onReadyStateChangeHandler_def Let_def split: sum.splits)

lemma invoked_executeNextTask: "invoked (state_of (executeNextTask pf s)) = invoked s"
  by (simp add: executeNextTask_def invoked_execute) (simp add: invoked_def)

lemma fired_callback:
  "isStateReady s \<Longrightarrow> options s = Some r \<Longrightarrow>
   registry_get pf (completionHandlers s) (url (heap s r)) = Callback h \<Longrightarrow>
   fired pf s =
     (case decode_response pf (heap s r) (xmlHtpRequest s) of
        Inl ex \<Rightarrow> []
      | Inr d \<Rightarrow> [(h, d, status (xmlHtpRequest s))])"
  by (simp add: fired_def handler_callback invoked_executeNextTask split: sum.splits)
     (simp add: invoked_def callbacks_append)

lemma fired_other:
  "\<not> (isStateReady s \<and>
      (\<exists>r h. options s = Some r \<and>
             registry_get pf (completionHandlers s) (url (heap s r)) = Callback h)) \<Longrightarrow>
   fired pf s = []"
proof (cases "isStateReady s \<and> options s \<noteq> None")
  case False
  then show ?thesis by (auto simp: fired_def handler_noop)
next
  case True
  then obtain r where r: "isStateReady s" "options s = Some r" by auto
  assume "\<not> (isStateReady s \<and>
      (\<exists>r h. options s = Some r \<and>
             registry_get pf (completionHandlers s) (url (heap s r)) = Callback h))"
  with r have n: "\<And>h. registry_get pf (completionHandlers s) (url (heap s r)) \<noteq> Callback h"
    by auto
  show ?thesis
  proof (cases "registry_get pf (completionHandlers s) (url (heap s r))")
    case Undefined_value
    with r show ?thesis by (auto simp: fired_def handler_noop)
  next
    case Lookup_throws
    with r show ?thesis by (simp add: fired_def handler_lookup_throws)
  next
    case (Callback h)
    with n show ?thesis by blast
  next
    case (Inherited f)
    have "invoked (s\<lparr>completionHandlers :=
                      registry_delete (completionHandlers s) (url (heap s r))\<rparr>) = invoked s"
      by (simp add: invoked_def)
    then show ?thesis
      using r Inherited
      by (simp add: fired_def handler_inherited invoked_executeNextTask split: sum.splits)
  qed
qed


lemma decode_response_throws:
  "decode_response pf opts x = Inl ex \<Longrightarrow> ex = SyntaxError"
  by (auto simp: decode_response_def Let_def split: if_splits option.splits)

subsection \<open>An enqueue while a completion is pending\<close>





section \<open>Invariants of runs\<close>

subsection \<open>At most one send is outstanding\<close>













subsection \<open>The running flag and the outstanding send\<close>












subsection \<open>Every open uses GET\<close>

lemma GET_execute: "queued_GET s \<Longrightarrow> queued_GET (state_of (execute pf s))"
proof (cases "isRunning s")
  case True
  assume "queued_GET s"
  with True show ?thesis by (simp add: execute_running)
next
  case False
  assume g: "queued_GET s"
  show ?thesis
  proof (cases "queue s")
    case Nil
    with False g show ?thesis by (simp add: execute_idle)
  next
    case (Cons t q)
    with g have "req_method (heap s (req_options t)) = GET"
      and "list_all opens_with_GET (trace s)"
      and "list_all (\<lambda>t. req_method (heap s (req_options t)) = GET) q"
      by (simp_all add: queued_GET_def)
    then show ?thesis
      by (simp add: execute_pop [OF False Cons] queued_GET_def dispatch_calls_def)
  qed
qed

lemma GET_get: "queued_GET s \<Longrightarrow> queued_GET (state_of (get pf r h s))"
  unfolding get_def Let_def
  by (rule GET_execute) (auto simp: queued_GET_def list_all_iff)

lemma GET_json: "queued_GET s \<Longrightarrow> queued_GET (state_of (json pf r h s))"
  unfolding json_def get_def Let_def
  by (rule GET_execute) (auto simp: queued_GET_def list_all_iff)

lemma GET_executeNextTask: "queued_GET s \<Longrightarrow> queued_GET (state_of (executeNextTask pf s))"
  unfolding executeNextTask_def
  by (rule GET_execute) (simp add: queued_GET_def)

lemma GET_abort: "queued_GET s \<Longrightarrow> queued_GET (xhr_abort s)"
  by (simp add: queued_GET_def xhr_abort_def)

lemma GET_handler:
  assumes g: "queued_GET s"
  shows "queued_GET (state_of (onReadyStateChangeHandler pf s))"
proof (cases "isStateReady s \<and> options s \<noteq> None")
  case False
  with g show ?thesis by (auto simp: handler_noop)
next
  case True
  then obtain r where r: "isStateReady s" "options s = Some r" by auto
  show ?thesis
  proof (cases "registry_get pf (completionHandlers s) (url (heap s r))")
    case Undefined_value
    with r g show ?thesis by (auto simp: handler_noop)
  next
    case Lookup_throws
    with r g show ?thesis by (simp add: handler_lookup_throws)
  next
    case (Callback h)
    have "\<And>d. queued_GET (state_of (executeNextTask pf
            (s\<lparr>trace := trace s @ [Invoke h d (status (xmlHtpRequest s))],
               completionHandlers :=
                 registry_delete (completionHandlers s) (url (heap s r))\<rparr>)))"
      using g by (intro GET_executeNextTask) (simp add: queued_GET_def)
    then show ?thesis
      using g by (simp add: handler_callback [OF r Callback] split: sum.splits)
  next
    case (Inherited f)
    have "queued_GET (state_of (executeNextTask pf
            (s\<lparr>completionHandlers :=
                 registry_delete (completionHandlers s) (url (heap s r))\<rparr>)))"
      using g by (intro GET_executeNextTask) (simp add: queued_GET_def)
    then show ?thesis
      using g by (simp add: handler_inherited [OF r Inherited] split: sum.splits)
  qed
qed

lemma GET_step: "queued_GET s \<Longrightarrow> queued_GET (step pf s i)"
proof (cases i)
  case (ReadyStateChange rs st body)
  assume "queued_GET s"
  then have "queued_GET
      (s\<lparr>xmlHtpRequest := \<lparr>readyState = rs, status = st, responseText = body\<rparr>\<rparr>)"
    by (simp add: queued_GET_def)
  then show ?thesis
    unfolding ReadyStateChange step.simps by (rule GET_handler)
next
  case Stop
  assume "queued_GET s"
  then show ?thesis
    unfolding Stop step.simps stop_def by (intro GET_abort) (simp add: queued_GET_def)
qed (simp_all add: GET_get GET_json GET_abort GET_executeNextTask close_def start_def)

lemma GET_run: "queued_GET s \<Longrightarrow> queued_GET (run pf s ins)"
  unfolding run_def
  by (induction ins arbitrary: s) (simp_all add: GET_step)

lemma GET_new: "queued_GET (new_HttpJS hp)"
  by (simp add: queued_GET_def new_HttpJS_def)

section \<open>The ready-state predicate\<close>

text \<open>
  C8: \<open>isStateReady\<close> returns a truth value and changes nothing; it is true iff the
  transport's ready state is 4 or undefined, and hence false for the ready states 0, 1, 2
  and 3.
\<close>

theorem isStateReady_iff:
  "isStateReady s =
     (readyState (xmlHtpRequest s) = Some 4 \<or> readyState (xmlHtpRequest s) = None)"
  by (auto simp: isStateReady_def Let_def)

section \<open>Mutation of the caller's options object\<close>

text \<open>
  C10: \<open>get\<close> and \<open>json\<close> write into the caller's options object: after \<open>get\<close> the object's
  method is GET whatever it was and its isJson field is as before; after \<open>json\<close> its
  method is GET and its isJson field is true. The caller reads these values through the
  same reference \<open>r\<close>, whether the call has returned or thrown.
\<close>

theorem get_json_mutate_options:
  "heap (state_of (get pf r h s)) = (heap s)(r := (heap s r)\<lparr>req_method := GET\<rparr>) \<and>
   heap (state_of (json pf r h s)) =
     (heap s)(r := (heap s r)\<lparr>req_method := GET, isJson := Some True\<rparr>) \<and>
   req_method (heap (state_of (get pf r h s)) r) = GET \<and>
   isJson (heap (state_of (get pf r h s)) r) = isJson (heap s r) \<and>
   req_method (heap (state_of (json pf r h s)) r) = GET \<and>
   isJson (heap (state_of (json pf r h s)) r) = Some True"
  by (cases "heap s r") (simp add: get_def json_def Let_def heap_execute)

section \<open>The queue filter\<close>

text \<open>
  C2, evaluated on the code: with two tasks of the different urls /b and /c queued and
  the running flag reset, the scheduling step dispatches the first task and leaves an
  empty queue; the second task, whose url differs from the dispatched one, is gone.
\<close>

theorem execute_drops_queued_task:
  "queue two_queued =
     [\<lparr>req_options = 1, req_handler = 11\<rparr>, \<lparr>req_options = 2, req_handler = 12\<rparr>] \<and>
   url (heap two_queued 1) = ''/b'' \<and>
   url (heap two_queued 2) = ''/c'' \<and>
   isRunning two_queued = False \<and>
   thrown (execute example_platform two_queued) = None \<and>
   options (state_of (execute example_platform two_queued)) = Some 1 \<and>
   queue (state_of (execute example_platform two_queued)) = []"
  by (simp add: two_queued_def dispatcher_defs)

section \<open>Order of completion\<close>

text \<open>
  C1, evaluated on the code: three requests with the distinct urls /a, /b and /c are
  enqueued one after the other and the transport completes three times. Only the first two
  callbacks are invoked; the third task was removed from the queue when the second was
  dispatched, and the dispatcher ends idle with an empty queue.
\<close>

theorem third_request_never_completes:
  "invoked (run example_platform (new_HttpJS example_heap) three_requests) =
     [(10, Raw ''x'', 200), (11, Raw ''y'', 200)] \<and>
   queue (run example_platform (new_HttpJS example_heap) three_requests) = [] \<and>
   isRunning (run example_platform (new_HttpJS example_heap) three_requests) = False"
  by (simp add: three_requests_def dispatcher_defs)

section \<open>Stop and start\<close>

text \<open>
  C4, evaluated on the code: after \<open>stop\<close>, two enqueued tasks stay in the queue and the
  only call on the transport is the abort. After \<open>start\<close> the first task is dispatched and
  the queue is empty, so the second task's callback is never invoked.
\<close>

theorem start_resumes_first_task_only:
  "trace (run example_platform (new_HttpJS example_heap) stopped_then_enqueued) = [XhrAbort] \<and>
   queue (run example_platform (new_HttpJS example_heap) stopped_then_enqueued) =
     [\<lparr>req_options = 0, req_handler = 10\<rparr>, \<lparr>req_options = 1, req_handler = 11\<rparr>] \<and>
   invoked (run example_platform (new_HttpJS example_heap) resumed) = [(10, Raw ''x'', 200)] \<and>
   queue (run example_platform (new_HttpJS example_heap) resumed) = [] \<and>
   isRunning (run example_platform (new_HttpJS example_heap) resumed) = False"
  by (simp add: resumed_def stopped_then_enqueued_def dispatcher_defs)

section \<open>Decoding of the response\<close>

text \<open>
  C5, as the code has it: when the handler decodes (terminal ready state, current options
  set, the lookup of their url yields a callback), then with isJson true and a non-zero
  status code the callback receives the parsed body if the body parses, and the handler
  throws without invoking the callback if it does not; in every other case the callback
  receives the raw response text. The callback receives the status code in each case.
\<close>

theorem decoding_policy:
  assumes "isStateReady s" and "options s = Some r"
    and "registry_get pf (completionHandlers s) (url (heap s r)) = Callback h"
  shows "if isJson (heap s r) = Some True \<and> status (xmlHtpRequest s) \<noteq> 0
     then (case JSON_parse pf (responseText (xmlHtpRequest s)) of
             None \<Rightarrow> onReadyStateChangeHandler pf s = Throws SyntaxError s \<and> fired pf s = []
           | Some v \<Rightarrow> fired pf s = [(h, Parsed v, status (xmlHtpRequest s))])
     else fired pf s = [(h, Raw (responseText (xmlHtpRequest s)), status (xmlHtpRequest s))]"
  using assms
  by (cases "isJson (heap s r)")
     (auto simp: fired_callback handler_callback decode_response_def Let_def
       split: option.splits)

text \<open>A \<open>json\<close> request answered with status 200 and the body \<open>[1,2,3]\<close>.\<close>

theorem decoding_policy_witness:
  "fired example_platform good_json_response =
     [(10, Parsed (JArray [JNumber 1, JNumber 2, JNumber 3]), 200)]"
proof -
  have a: "isStateReady good_json_response"
    by (simp add: good_json_response_def isStateReady_def)
  have b: "options good_json_response = Some 0"
    by (simp add: good_json_response_def dispatcher_defs)
  have c: "registry_get example_platform (completionHandlers good_json_response)
             (url (heap good_json_response 0)) = Callback 10"
    by (simp add: good_json_response_def dispatcher_defs)
  have d: "isJson (heap good_json_response 0) = Some True"
    by (simp add: good_json_response_def dispatcher_defs)
  have e: "status (xmlHtpRequest good_json_response) = 200"
     "responseText (xmlHtpRequest good_json_response) = ''[1,2,3]''"
    by (simp_all add: good_json_response_def)
  have f: "JSON_parse example_platform ''[1,2,3]'' =
      Some (JArray [JNumber 1, JNumber 2, JNumber 3])"
    by (simp add: example_platform_def example_parse_def)
  show ?thesis
    using decoding_policy [OF a b c] d e f
    by simp
qed

text \<open>
  C5 as stated fails for a body that is not JSON: isJson is true and the status code is
  200, and the handler ends with \<open>SyntaxError\<close> before any callback is invoked.
\<close>

theorem unparsable_body_no_callback:
  "isJson (heap bad_json_response 0) = Some True \<and>
   status (xmlHtpRequest bad_json_response) = 200 \<and>
   isStateReady bad_json_response \<and>
   options bad_json_response = Some 0 \<and>
   own (completionHandlers bad_json_response) (url (heap bad_json_response 0)) = Some 10 \<and>
   onReadyStateChangeHandler example_platform bad_json_response =
     Throws SyntaxError bad_json_response \<and>
   fired example_platform bad_json_response = []"
  by (simp add: bad_json_response_def dispatcher_defs)

section \<open>The guard of the completion handler\<close>

text \<open>
  C7, as the code has it: the completion handler invokes a callback iff the transport is
  in its terminal ready state, the current options are set, the lookup of their url on
  the registry yields a callback, and decoding the response does not throw. If the
  transport is not in its terminal ready state, or the current options are not set, or
  that lookup yields undefined (no entry and no inherited property of the name), the
  handler returns with the state unchanged.
\<close>

theorem completion_guard:
  "((\<exists>c. fired pf s = [c]) =
      (isStateReady s \<and>
       (\<exists>r h d. options s = Some r \<and>
          registry_get pf (completionHandlers s) (url (heap s r)) = Callback h \<and>
          decode_response pf (heap s r) (xmlHtpRequest s) = Inr d))) \<and>
   (\<not> isStateReady s \<or> options s = None \<or>
    (\<exists>r. options s = Some r \<and>
         registry_get pf (completionHandlers s) (url (heap s r)) = Undefined_value) \<longrightarrow>
      onReadyStateChangeHandler pf s = Returns s)"
proof (intro conjI impI)
  show "(\<exists>c. fired pf s = [c]) =
      (isStateReady s \<and>
       (\<exists>r h d. options s = Some r \<and>
          registry_get pf (completionHandlers s) (url (heap s r)) = Callback h \<and>
          decode_response pf (heap s r) (xmlHtpRequest s) = Inr d))"
  proof (cases "isStateReady s \<and>
      (\<exists>r h. options s = Some r \<and>
             registry_get pf (completionHandlers s) (url (heap s r)) = Callback h)")
    case False
    then have "fired pf s = []" by (rule fired_other)
    with False show ?thesis by auto
  next
    case True
    then obtain r h where p: "isStateReady s" "options s = Some r"
        "registry_get pf (completionHandlers s) (url (heap s r)) = Callback h"
      by auto
    show ?thesis
    proof (cases "decode_response pf (heap s r) (xmlHtpRequest s)")
      case (Inl ex)
      then have "fired pf s = []" using p by (simp add: fired_callback)
      with p Inl show ?thesis by auto
    next
      case (Inr d)
      then have "fired pf s = [(h, d, status (xmlHtpRequest s))]"
        using p by (simp add: fired_callback)
      with p Inr show ?thesis by auto
    qed
  qed
next
  assume "\<not> isStateReady s \<or> options s = None \<or>
    (\<exists>r. options s = Some r \<and>
         registry_get pf (completionHandlers s) (url (heap s r)) = Undefined_value)"
  then show "onReadyStateChangeHandler pf s = Returns s"
    by (rule handler_noop)
qed

text \<open>A completed \<open>json\<close> request, and a notification on a fresh dispatcher.\<close>

theorem completion_guard_witness:
  "(\<exists>c. fired example_platform good_json_response = [c]) \<and>
   onReadyStateChangeHandler example_platform (new_HttpJS example_heap) =
     Returns (new_HttpJS example_heap)"
proof -
  have a: "isStateReady good_json_response \<and>
       (\<exists>r h d. options good_json_response = Some r \<and>
          registry_get example_platform (completionHandlers good_json_response)
            (url (heap good_json_response r)) = Callback h \<and>
          decode_response example_platform (heap good_json_response r)
            (xmlHtpRequest good_json_response) = Inr d)"
    by (simp add: good_json_response_def dispatcher_defs)
  have b: "\<not> isStateReady (new_HttpJS example_heap) \<or>
      options (new_HttpJS example_heap) = None \<or>
      (\<exists>r. options (new_HttpJS example_heap) = Some r \<and>
           registry_get example_platform (completionHandlers (new_HttpJS example_heap))
             (url (heap (new_HttpJS example_heap) r)) = Undefined_value)"
    by (simp add: new_HttpJS_def)
  show ?thesis
    using completion_guard [where pf = example_platform and s = good_json_response] a
      completion_guard [where pf = example_platform and s = "new_HttpJS example_heap"] b
    by blast
qed

text \<open>
  C7 as stated fails in two ways. When decoding throws, the three conditions hold (the
  undefined ready state counts as terminal) and no callback is invoked. And with the
  current url \<open>constructor\<close> the registry has no entry, yet the lookup finds the inherited
  function, the handler calls it and goes on to the scheduling step, which here
  dispatches the queued task of a stopped dispatcher.
\<close>

theorem registered_and_ready_yet_no_callback:
  "isStateReady not_found_response \<and>
   options not_found_response = Some 2 \<and>
   own (completionHandlers not_found_response) (url (heap not_found_response 2)) = Some 12 \<and>
   onReadyStateChangeHandler example_platform not_found_response =
     Throws SyntaxError not_found_response \<and>
   fired example_platform not_found_response = [] \<and>
   isStateReady stale_constructor \<and>
   options stale_constructor = Some 5 \<and>
   url (heap stale_constructor 5) = ''constructor'' \<and>
   own (completionHandlers stale_constructor) ''constructor'' = None \<and>
   queue stale_constructor = [\<lparr>req_options = 1, req_handler = 11\<rparr>] \<and>
   queue (state_of (onReadyStateChangeHandler example_platform stale_constructor)) = [] \<and>
   options (state_of (onReadyStateChangeHandler example_platform stale_constructor)) = Some 1 \<and>
   trace (state_of (onReadyStateChangeHandler example_platform stale_constructor)) =
     trace stale_constructor @ [XhrOpen GET ''/b'' True, XhrSend]"
  by (simp add: not_found_response_def stale_constructor_def dispatcher_defs)

section \<open>Two requests for one url\<close>




section \<open>Method and headers of a dispatch\<close>

text \<open>
  C9: in every run from a fresh dispatcher, whatever methods the option objects carry,
  every \<open>open\<close> uses GET. A dispatch that does not throw at the registration opens the
  transport with the method and url of the task's options; if \<open>open\<close> does not throw, it
  then sets the Accept header iff their isJson is true, and sends. So each send comes
  after an \<open>open\<close>, with the header between them iff isJson is true. An enqueue on an idle
  dispatcher dispatches at once: \<open>get\<close> opens with GET and sets the header iff isJson is
  true, \<open>json\<close> opens with GET and sets the header.
\<close>

theorem dispatch_uses_GET:
  "list_all opens_with_GET (trace (run pf (new_HttpJS hp) ins)) \<and>
   (\<not> isRunning s \<and> queue s = t # q \<longrightarrow>
      trace (state_of (execute pf s)) =
        trace s @
        (if registry_set pf (completionHandlers s) (url (heap s (req_options t)))
              (req_handler t) = None
         then []
         else
           [XhrOpen (req_method (heap s (req_options t))) (url (heap s (req_options t))) True] @
           (if url_parses pf (url (heap s (req_options t)))
            then (if isJson (heap s (req_options t)) = Some True
                  then [XhrSetRequestHeader ''Accept'' ''application/json''] else []) @
                 [XhrSend]
            else []))) \<and>
   (\<not> isRunning s \<and> queue s = [] \<longrightarrow>
      trace (state_of (get pf r h s)) =
        trace s @
        (if registry_set pf (completionHandlers s) (url (heap s r)) h = None then []
         else
           [XhrOpen GET (url (heap s r)) True] @
           (if url_parses pf (url (heap s r))
            then (if isJson (heap s r) = Some True
                  then [XhrSetRequestHeader ''Accept'' ''application/json''] else []) @
                 [XhrSend]
            else []))) \<and>
   (\<not> isRunning s \<and> queue s = [] \<longrightarrow>
      trace (state_of (json pf r h s)) =
        trace s @
        (if registry_set pf (completionHandlers s) (url (heap s r)) h = None then []
         else
           [XhrOpen GET (url (heap s r)) True] @
           (if url_parses pf (url (heap s r))
            then [XhrSetRequestHeader ''Accept'' ''application/json'', XhrSend]
            else [])))"
proof (intro conjI impI)
  have g: "queued_GET (run pf (new_HttpJS hp) ins)"
    using GET_new by (rule GET_run)
  then show "list_all opens_with_GET (trace (run pf (new_HttpJS hp) ins))"
    by (simp add: queued_GET_def)
next
  assume a: "\<not> isRunning s \<and> queue s = t # q"
  then show "trace (state_of (execute pf s)) =
        trace s @
        (if registry_set pf (completionHandlers s) (url (heap s (req_options t)))
              (req_handler t) = None
         then []
         else
           [XhrOpen (req_method (heap s (req_options t))) (url (heap s (req_options t))) True] @
           (if url_parses pf (url (heap s (req_options t)))
            then (if isJson (heap s (req_options t)) = Some True
                  then [XhrSetRequestHeader ''Accept'' ''application/json''] else []) @
                 [XhrSend]
            else []))"
    by (simp add: execute_pop dispatch_calls_def)
next
  assume a: "\<not> isRunning s \<and> queue s = []"
  then show "trace (state_of (get pf r h s)) =
        trace s @
        (if registry_set pf (completionHandlers s) (url (heap s r)) h = None then []
         else
           [XhrOpen GET (url (heap s r)) True] @
           (if url_parses pf (url (heap s r))
            then (if isJson (heap s r) = Some True
                  then [XhrSetRequestHeader ''Accept'' ''application/json''] else []) @
                 [XhrSend]
            else []))"
    by (simp add: get_def Let_def execute_pop dispatch_calls_def)
next
  assume a: "\<not> isRunning s \<and> queue s = []"
  then show "trace (state_of (json pf r h s)) =
        trace s @
        (if registry_set pf (completionHandlers s) (url (heap s r)) h = None then []
         else
           [XhrOpen GET (url (heap s r)) True] @
           (if url_parses pf (url (heap s r))
            then [XhrSetRequestHeader ''Accept'' ''application/json'', XhrSend]
            else []))"
    by (simp add: json_def get_def Let_def execute_pop dispatch_calls_def)
qed

text \<open>
  An options object with the method POST handed to \<open>get\<close> and to \<open>json\<close>, a dispatch from
  the queue after \<open>stop\<close>, and a url that does not parse.
\<close>

theorem dispatch_uses_GET_witness:
  "req_method (example_heap 0) = POST \<and>
   trace (state_of (get example_platform 0 10 (new_HttpJS example_heap))) =
     [XhrOpen GET ''/a'' True, XhrSend] \<and>
   trace (state_of (json example_platform 0 10 (new_HttpJS example_heap))) =
     [XhrOpen GET ''/a'' True, XhrSetRequestHeader ''Accept'' ''application/json'', XhrSend] \<and>
   trace (state_of (execute example_platform stopped_with_json)) =
     [XhrAbort, XhrOpen GET ''/a'' True,
      XhrSetRequestHeader ''Accept'' ''application/json'', XhrSend] \<and>
   trace (state_of (get example_platform 4 14 (new_HttpJS example_heap))) =
     [XhrOpen GET ''http://'' True]"
proof -
  have a: "\<not> isRunning (new_HttpJS example_heap) \<and> queue (new_HttpJS example_heap) = []"
    "trace (new_HttpJS example_heap) = []" "heap (new_HttpJS example_heap) = example_heap"
    "completionHandlers (new_HttpJS example_heap) = \<lparr>own = Map.empty, proto = None\<rparr>"
    by (simp_all add: new_HttpJS_def)
  have b: "\<not> isRunning stopped_with_json \<and>
      queue stopped_with_json =
        \<lparr>req_options = 0, req_handler = 10\<rparr> # [\<lparr>req_options = 1, req_handler = 11\<rparr>]"
    by (simp add: stopped_with_json_def dispatcher_defs)
  have c: "trace stopped_with_json = [XhrAbort]"
      "heap stopped_with_json 0 =
         \<lparr>req_method = GET, url = ''/a'', params = None, isJson = Some True\<rparr>"
      "completionHandlers stopped_with_json = \<lparr>own = Map.empty, proto = None\<rparr>"
    by (simp_all add: stopped_with_json_def dispatcher_defs)
  have d: "example_heap 0 = \<lparr>req_method = POST, url = ''/a'', params = None, isJson = None\<rparr>"
      "example_heap 4 = \<lparr>req_method = GET, url = ''http://'', params = None, isJson = None\<rparr>"
    by (simp_all add: example_heap_def)
  have e: "url_parses example_platform ''/a''" "\<not> url_parses example_platform ''http://''"
      "\<And>k h. registry_set example_platform \<lparr>own = Map.empty, proto = None\<rparr> k h \<noteq> None"
    by (simp_all add: example_platform_def registry_set_def)
  show ?thesis
    using dispatch_uses_GET [where s = "new_HttpJS example_heap" and r = 0 and h = 10
        and pf = example_platform]
      dispatch_uses_GET [where s = "new_HttpJS example_heap" and r = 4 and h = 14
        and pf = example_platform]
      dispatch_uses_GET [where s = stopped_with_json and pf = example_platform
        and t = "\<lparr>req_options = 0, req_handler = 10\<rparr>"
        and q = "[\<lparr>req_options = 1, req_handler = 11\<rparr>]"]
      a b c d e
    by simp
qed

section \<open>One transport operation at a time\<close>




end
